theory Spec2Isabelle
  imports Main "HOL-Library.AList"
begin

section \<open>Python values, exceptions and the effect trace\<close>

text \<open>
  The two hooks of the repository (\<^verbatim>\<open>publish_render.py\<close>, class
  \<^verbatim>\<open>PremiereUploadVersionPlugin\<close>, and \<^verbatim>\<open>publish_xml.py\<close>, class
  \<^verbatim>\<open>PremiereUploadEDLPlugin\<close>) are embedded as functions over an explicit state:
  the item the host hands to each lifecycle method, and the trace of the calls the plugin
  makes to its collaborators (logger, editor bridge, superclass, tracking database).
  Every exception is a value: a method returns \<open>Inl e\<close> when the Python raises \<open>e\<close>.

  The values that travel through \<^verbatim>\<open>item.properties\<close>, the settings and the payloads
  are dynamically typed, so they are one datatype. A dictionary is an association list in
  insertion order; \<^const>\<open>AList.update\<close> overwrites in place or appends, as a Python
  \<^verbatim>\<open>dict\<close> does. A template object is known by its name, a callable by a label.
\<close>

datatype pyval =
    PNone
  | PBool bool
  | PInt int
  | PStr string
  | PList "pyval list"
  | PDict "(string \<times> pyval) list"
  | PTemplate string
  | PCallable string

text \<open>Truth value testing, as \<^verbatim>\<open>if x:\<close> and \<^verbatim>\<open>not x\<close> perform it.\<close>

fun truthy :: "pyval \<Rightarrow> bool" where
  "truthy PNone = False"
| "truthy (PBool b) = b"
| "truthy (PInt i) = (i \<noteq> 0)"
| "truthy (PStr s) = (s \<noteq> [])"
| "truthy (PList xs) = (xs \<noteq> [])"
| "truthy (PDict kvs) = (kvs \<noteq> [])"
| "truthy (PTemplate t) = True"
| "truthy (PCallable f) = True"

datatype exn =
    NameError string
  | AttributeError string
  | KeyError string
  | IndexError
  | TypeError
  | ValueError
  | ProjectUnsavedError string
  | HostError string

text \<open>
  One event per call that leaves the plugin. An event is recorded when the call is made,
  whether or not the callee then raises.
\<close>

datatype event =
    LogDebug string pyval
  | LogInfo string
  | LogWarn string pyval
  | LogError string pyval
  | ApplyFields string "(string \<times> pyval) list"
  | ExportAsMediaDirect pyval string int
  | ExportAsFinalCutProXML pyval int
  | SuperValidate
  | SuperPublish
  | SuperFinalize
  | SgCreate string "(string \<times> pyval) list"
  | SgUpload string pyval pyval string

record context_obj =
  entity :: pyval
  project :: pyval
  task :: pyval

record item =
  name :: string
  description :: pyval
  item_context :: context_obj
  properties :: "(string \<times> pyval) list"
  context_change_allowed :: bool

record pstate =
  the_item :: item
  trace :: "event list"

type_synonym settings = "string \<rightharpoonup> pyval"

text \<open>
  The collaborators the plugins call but do not define. Each is a parameter; a call that
  can fail returns a sum. \<open>workfiles2\<close> is \<^verbatim>\<open>engine.apps\<close> restricted to the key the
  code looks up: \<open>None\<close> when the app is not configured, \<open>Some b\<close> when it is, \<open>b\<close>
  telling whether it has the attribute \<^verbatim>\<open>show_file_save_dlg\<close>.
\<close>

record host =
  project_path :: pyval
  workfiles2 :: "bool option"
  get_template_by_name :: "pyval \<Rightarrow> exn + pyval"
  normalize :: "pyval \<Rightarrow> exn + pyval"
  basename :: "pyval \<Rightarrow> exn + string"
  template_validate :: "string \<Rightarrow> pyval \<Rightarrow> exn + bool"
  as_template_fields :: "context_obj \<Rightarrow> pyval \<Rightarrow> exn + (string \<times> pyval) list"
  apply_fields :: "string \<Rightarrow> (string \<times> pyval) list \<Rightarrow> exn + pyval"
  exportAsMediaDirect :: "pyval \<Rightarrow> string \<Rightarrow> int \<Rightarrow> exn + unit"
  exportAsFinalCutProXML :: "pyval \<Rightarrow> int \<Rightarrow> exn + unit"
  get_file_path_components :: "pyval \<Rightarrow> exn + pyval"
  super_validate :: "settings \<Rightarrow> item \<Rightarrow> (exn + pyval) \<times> item"
  super_publish :: "settings \<Rightarrow> item \<Rightarrow> (exn + unit) \<times> item"
  super_finalize :: "settings \<Rightarrow> item \<Rightarrow> (exn + unit) \<times> item"
  sg_create :: "string \<Rightarrow> (string \<times> pyval) list \<Rightarrow> exn + pyval"
  sg_upload :: "string \<Rightarrow> pyval \<Rightarrow> pyval \<Rightarrow> string \<Rightarrow> exn + unit"

section \<open>Sequencing with exceptions\<close>

type_synonym 'a prog = "pstate \<Rightarrow> (exn + 'a) \<times> pstate"

definition ret :: "'a \<Rightarrow> 'a prog" where
  "ret x s = (Inr x, s)"

definition raise :: "exn \<Rightarrow> 'a prog" where
  "raise e s = (Inl e, s)"

definition bnd :: "'a prog \<Rightarrow> ('a \<Rightarrow> 'b prog) \<Rightarrow> 'b prog" where
  "bnd m f s = (case m s of (Inl e, s') \<Rightarrow> (Inl e, s') | (Inr x, s') \<Rightarrow> f x s')"

definition lift :: "exn + 'a \<Rightarrow> 'a prog" where
  "lift r s = (r, s)"

definition emit :: "event \<Rightarrow> unit prog" where
  "emit ev s = (Inr (), s\<lparr>trace := trace s @ [ev]\<rparr>)"

definition call :: "event \<Rightarrow> exn + 'a \<Rightarrow> 'a prog" where
  "call ev r = bnd (emit ev) (\<lambda>_. lift r)"

definition get_item :: "item prog" where
  "get_item s = (Inr (the_item s), s)"

definition set_property :: "string \<Rightarrow> pyval \<Rightarrow> unit prog" where
  "set_property k v s =
     (Inr (), s\<lparr>the_item := (the_item s)\<lparr>properties := AList.update k v (properties (the_item s))\<rparr>\<rparr>)"

definition call_super :: "event \<Rightarrow> (item \<Rightarrow> (exn + 'a) \<times> item) \<Rightarrow> 'a prog" where
  "call_super ev f s =
     (case f (the_item s) of (r, i') \<Rightarrow> (r, s\<lparr>the_item := i', trace := trace s @ [ev]\<rparr>))"

section \<open>Python primitives the hooks use\<close>

text \<open>
  A global name resolves in the module's namespace, then in the builtins; otherwise the
  reference raises \<^verbatim>\<open>NameError\<close>. The module namespaces are the names each file
  binds at top level: its imports, \<^verbatim>\<open>HookBaseClass\<close> and its one class.
\<close>

definition builtins :: "string list" where
  "builtins = [''int'', ''super'']"

definition render_globals :: "string list" where
  "render_globals = [''os'', ''re'', ''pprint'', ''tempfile'', ''uuid'', ''sys'', ''sgtk'',
     ''six'', ''HookBaseClass'', ''PremiereUploadVersionPlugin'']"

definition xml_globals :: "string list" where
  "xml_globals = [''os'', ''pprint'', ''tempfile'', ''uuid'', ''sys'', ''sgtk'',
     ''six'', ''HookBaseClass'', ''PremiereUploadEDLPlugin'']"

definition global_ref :: "string list \<Rightarrow> string \<Rightarrow> unit prog" where
  "global_ref globs n =
     (if List.member globs n \<or> List.member builtins n then ret () else raise (NameError n))"

text \<open>\<^verbatim>\<open>d[k]\<close> on a dictionary of properties.\<close>

definition dict_getitem :: "(string \<times> pyval) list \<Rightarrow> string \<Rightarrow> exn + pyval" where
  "dict_getitem d k = (case map_of d k of None \<Rightarrow> Inl (KeyError k) | Some v \<Rightarrow> Inr v)"

text \<open>\<^verbatim>\<open>d.get(k)\<close> and \<^verbatim>\<open>d.get(k, default)\<close>.\<close>

definition dict_get :: "(string \<times> pyval) list \<Rightarrow> string \<Rightarrow> pyval \<Rightarrow> pyval" where
  "dict_get d k dflt = (case map_of d k of None \<Rightarrow> dflt | Some v \<Rightarrow> v)"

text \<open>\<^verbatim>\<open>v[k]\<close> and \<^verbatim>\<open>v[k] = x\<close> on a value: only a dictionary takes a string key.\<close>

fun py_getitem :: "pyval \<Rightarrow> string \<Rightarrow> exn + pyval" where
  "py_getitem (PDict d) k = dict_getitem d k"
| "py_getitem v k = Inl TypeError"

fun py_setitem :: "pyval \<Rightarrow> string \<Rightarrow> pyval \<Rightarrow> exn + pyval" where
  "py_setitem (PDict d) k x = Inr (PDict (AList.update k x d))"
| "py_setitem v k x = Inl TypeError"

text \<open>\<^verbatim>\<open>xs[i]\<close> on a list, negative indices counting from the end.\<close>

definition py_index :: "'a list \<Rightarrow> int \<Rightarrow> exn + 'a" where
  "py_index xs i =
     (if 0 \<le> i \<and> i < int (length xs) then Inr (xs ! nat i)
      else if i < 0 \<and> - int (length xs) \<le> i then Inr (xs ! nat (int (length xs) + i))
      else Inl IndexError)"

text \<open>\<^verbatim>\<open>s.split(c)\<close> for a one-character separator.\<close>

fun py_split :: "char \<Rightarrow> string \<Rightarrow> string list" where
  "py_split c [] = [[]]"
| "py_split c (x # xs) =
     (if x = c then [] # py_split c xs
      else (case py_split c xs of [] \<Rightarrow> [[x]] | w # ws \<Rightarrow> (x # w) # ws))"

text \<open>
  \<^verbatim>\<open>list.extend(iterable)\<close>: a list contributes its elements, a dictionary its keys, a
  string its characters; the other values are not iterable.
\<close>

fun py_extend :: "pyval list \<Rightarrow> pyval \<Rightarrow> exn + pyval list" where
  "py_extend xs (PList ys) = Inr (xs @ ys)"
| "py_extend xs (PDict d) = Inr (xs @ map (\<lambda>kv. PStr (fst kv)) d)"
| "py_extend xs (PStr cs) = Inr (xs @ map (\<lambda>c. PStr [c]) cs)"
| "py_extend xs v = Inl TypeError"

text \<open>\<^verbatim>\<open>six.ensure_str\<close> returns a text string as it is and rejects what is not a string.\<close>

fun ensure_str :: "pyval \<Rightarrow> exn + pyval" where
  "ensure_str (PStr cs) = Inr (PStr cs)"
| "ensure_str v = Inl TypeError"

subsection \<open>The regular expressions\<close>

text \<open>The character class \<^verbatim>\<open>[0-9]\<close>.\<close>

definition is_digit :: "char \<Rightarrow> bool" where
  "is_digit c = (c \<in> set ''0123456789'')"

text \<open>Position \<open>j\<close> of \<open>s\<close> holds a \<^verbatim>\<open>v\<close> that a digit follows.\<close>

abbreviation v_digit_at :: "string \<Rightarrow> nat \<Rightarrow> bool" where
  "v_digit_at s j \<equiv> Suc j < length s \<and> s ! j = CHR ''v'' \<and> is_digit (s ! Suc j)"

text \<open>
  \<^verbatim>\<open>re.findall\<close> scans from the left and returns the non-overlapping matches in order;
  each match is the leftmost one at or after the end of the previous match, and \<^verbatim>\<open>+\<close>
  is greedy. For \<^verbatim>\<open>v[0-9]+\<close> a match starts at a \<^verbatim>\<open>v\<close> that a digit follows and takes
  the whole run of digits.
\<close>

function findall_v_digits :: "string \<Rightarrow> string list" where
  "findall_v_digits [] = []"
| "findall_v_digits (c # cs) =
     (if c = CHR ''v'' \<and> takeWhile is_digit cs \<noteq> []
      then (c # takeWhile is_digit cs) # findall_v_digits (dropWhile is_digit cs)
      else findall_v_digits cs)"
  by pat_completeness auto
termination
  by (relation "measure length") (auto simp: less_Suc_eq_le length_dropWhile_le)

text \<open>For \<^verbatim>\<open>[0-9]+\<close> the matches are the maximal runs of digits.\<close>

function findall_digits :: "string \<Rightarrow> string list" where
  "findall_digits [] = []"
| "findall_digits (c # cs) =
     (if is_digit c
      then (c # takeWhile is_digit cs) # findall_digits (dropWhile is_digit cs)
      else findall_digits cs)"
  by pat_completeness auto
termination
  by (relation "measure length") (auto simp: less_Suc_eq_le length_dropWhile_le)

text \<open>For \<^verbatim>\<open>[0-9]{3}\<close> a match is three digits in a row; the scan resumes after them.\<close>

fun findall_3digits :: "string \<Rightarrow> string list" where
  "findall_3digits (a # b # c # cs) =
     (if is_digit a \<and> is_digit b \<and> is_digit c then [a, b, c] # findall_3digits cs
      else findall_3digits (b # c # cs))"
| "findall_3digits cs = []"

text \<open>
  \<^verbatim>\<open>int(s)\<close> on a string. The hooks only pass it a match of a digit pattern, where the
  result is the decimal value, leading zeros allowed. The other spellings Python accepts
  (sign, surrounding blanks, underscores) are not digit runs and are left out.
\<close>

definition digits_value :: "string \<Rightarrow> int" where
  "digits_value s = foldl (\<lambda>a c. 10 * a + (of_char c - 48)) 0 s"

definition py_int :: "string \<Rightarrow> exn + int" where
  "py_int s = (if s \<noteq> [] \<and> list_all is_digit s then Inr (digits_value s) else Inl ValueError)"

section \<open>State accessors shared by the two hooks\<close>

definition set_name :: "string \<Rightarrow> unit prog" where
  "set_name n s = (Inr (), s\<lparr>the_item := (the_item s)\<lparr>name := n\<rparr>\<rparr>)"

definition set_context_change_allowed :: "bool \<Rightarrow> unit prog" where
  "set_context_change_allowed b s =
     (Inr (), s\<lparr>the_item := (the_item s)\<lparr>context_change_allowed := b\<rparr>\<rparr>)"

text \<open>
  \<^verbatim>\<open>settings.get(k).value\<close>: \<^verbatim>\<open>get\<close> gives \<^verbatim>\<open>None\<close> for a missing key, and
  \<^verbatim>\<open>None\<close> has no attribute \<^verbatim>\<open>value\<close>.
\<close>

definition setting_value :: "settings \<Rightarrow> string \<Rightarrow> pyval prog" where
  "setting_value settings k =
     (case settings k of None \<Rightarrow> raise (AttributeError ''value'') | Some v \<Rightarrow> ret v)"

text \<open>Method calls on a value that is expected to be a template object.\<close>

fun method_validate :: "host \<Rightarrow> pyval \<Rightarrow> pyval \<Rightarrow> bool prog" where
  "method_validate h (PTemplate t) path = lift (template_validate h t path)"
| "method_validate h v path = raise (AttributeError ''validate'')"

fun method_apply_fields :: "host \<Rightarrow> pyval \<Rightarrow> (string \<times> pyval) list \<Rightarrow> pyval prog" where
  "method_apply_fields h (PTemplate t) flds = call (ApplyFields t flds) (apply_fields h t flds)"
| "method_apply_fields h v flds = raise (AttributeError ''apply_fields'')"

definition quote :: char where
  "quote = CHR 0x27"

definition unsaved_message :: "string \<Rightarrow> string" where
  "unsaved_message n = ''The Premiere project '' @ [quote] @ n @ [quote] @ '' has not been saved.''"


section \<open>The movie hook: \<^verbatim>\<open>PremiereUploadVersionPlugin\<close>\<close>


definition VersionPlugin_get_save_as_action :: "host \<Rightarrow> pyval" where
  "VersionPlugin_get_save_as_action h =
     PDict [(''action_button'', PDict
       [(''label'', PStr ''Save As...''),
        (''tooltip'', PStr ''Save the active project''),
        (''callback'', (case workfiles2 h of
             None \<Rightarrow> PCallable ''engine.save_as''
           | Some has_dlg \<Rightarrow>
               if has_dlg then PCallable ''show_file_save_dlg'' else PCallable ''engine.save_as''))])]"

definition VersionPlugin_get_version_entity :: "item \<Rightarrow> pyval prog" where
  "VersionPlugin_get_version_entity i =
     (if truthy (entity (item_context i)) then ret (entity (item_context i))
      else if truthy (project (item_context i)) then ret (project (item_context i))
      else ret PNone)"


definition VersionPlugin_validate :: "host \<Rightarrow> settings \<Rightarrow> pyval prog" where
  "VersionPlugin_validate h settings =
     bnd get_item (\<lambda>i.
     if \<not> truthy (project_path h) then
       bnd (emit (LogError (unsaved_message (name i)) (VersionPlugin_get_save_as_action h))) (\<lambda>_.
       bnd (global_ref render_globals ''ProjectUnsavedError'') (\<lambda>_.
       raise (ProjectUnsavedError (unsaved_message (name i)))))
     else
       bnd (global_ref render_globals ''sgtk'') (\<lambda>_.
       bnd (lift (normalize h (project_path h))) (\<lambda>path.
       bnd (if truthy (dict_get (properties i) ''work_template'' PNone) then
              bnd (method_validate h (dict_get (properties i) ''work_template'' PNone) path) (\<lambda>ok.
              if \<not> ok then
                emit (LogWarn ''The current project does not match the configured work template.''
                  (PDict [(''action_button'', PDict
                     [(''label'', PStr ''Save File''),
                      (''tooltip'', PStr ''Save the current Premiere projectto a different file name''),
                      (''callback'', VersionPlugin_get_save_as_action h)])]))
              else emit (LogDebug ''Work template configured and matches project path.'' PNone))
            else emit (LogDebug ''No work template configured.'' PNone)) (\<lambda>_.
       bnd (setting_value settings ''Publish Template'') (\<lambda>v.
       bnd (lift (get_template_by_name h v)) (\<lambda>publish_template.
       bnd (if truthy publish_template then set_property ''publish_template'' publish_template
            else ret ()) (\<lambda>_.
       bnd (global_ref render_globals ''os'') (\<lambda>_.
       bnd (lift (basename h path)) (\<lambda>b.
       bnd (set_name b) (\<lambda>_.
       bnd (set_property ''path'' path) (\<lambda>_.
       bnd (global_ref render_globals ''super'') (\<lambda>_.
       bnd (global_ref render_globals ''PremiereUploadVersionPlugin'') (\<lambda>_.
       call_super SuperValidate (super_validate h settings))))))))))))))"

text \<open>Lines 267 to 270 of \<^verbatim>\<open>publish\<close>: the name and the version read off the item name.\<close>

definition VersionPlugin_name_version :: "string \<Rightarrow> (string \<times> int) prog" where
  "VersionPlugin_name_version item_name =
     bnd (lift (py_index (py_split CHR ''.'' item_name) 0)) (\<lambda>nm.
     bnd (global_ref render_globals ''re'') (\<lambda>_.
     bnd (lift (py_index (findall_v_digits item_name) (- 1))) (\<lambda>version.
     bnd (global_ref render_globals ''int'') (\<lambda>_.
     bnd (global_ref render_globals ''re'') (\<lambda>_.
     bnd (lift (py_index (findall_digits version) (- 1))) (\<lambda>digits.
     bnd (lift (py_int digits)) (\<lambda>version.
     ret (nm, version))))))))"

definition backslash :: char where
  "backslash = CHR 0x5C"

definition preset :: string where
  "preset = ''C:'' @ [backslash] @ ''Program Files'' @ [backslash] @ ''Adobe'' @ [backslash]
     @ ''Adobe Premiere Pro 2023'' @ [backslash] @ ''Settings'' @ [backslash]
     @ ''EncoderPresets'' @ [backslash] @ ''ConsolidateAndTranscode'' @ [backslash]
     @ ''Match Source - DNxHD.epr''"

text \<open>
  Lines 296 to 352 of \<^verbatim>\<open>publish\<close>, reached with a rendered path that is not
  \<^verbatim>\<open>None\<close>. The debug record carries the payload itself where the Python formats it
  with \<^verbatim>\<open>pprint\<close>. Assigning into \<^verbatim>\<open>item.properties["sg_publish_data"]\<close> changes
  the dictionary the properties hold, so the changed dictionary is stored back.
\<close>

definition VersionPlugin_register_and_upload ::
    "host \<Rightarrow> settings \<Rightarrow> item \<Rightarrow> pyval \<Rightarrow> pyval \<Rightarrow> pyval prog" where
  "VersionPlugin_register_and_upload h settings i path_to_movie publish_name =
     bnd (emit (LogInfo ''Creating Version...'')) (\<lambda>_.
     bnd (VersionPlugin_get_version_entity i) (\<lambda>version_entity.
     bnd (ret [(''project'', project (item_context i)),
               (''code'', publish_name),
               (''description'', description i),
               (''entity'', version_entity),
               (''sg_task'', task (item_context i)),
               (''sg_path_to_movie'', path_to_movie)]) (\<lambda>version_data.
     bnd (set_property ''path'' path_to_movie) (\<lambda>_.
     bnd (set_property ''publish_type'' (PStr ''Rendered Image'')) (\<lambda>_.
     bnd get_item (\<lambda>i2.
     bnd (VersionPlugin_get_version_entity i2) (\<lambda>upstream.
     bnd (lift (dict_getitem (properties i2) ''sg_publish_data'')) (\<lambda>spd.
     bnd (lift (py_setitem spd ''upstream_published_files'' upstream)) (\<lambda>spd'.
     bnd (set_property ''sg_publish_data'' spd') (\<lambda>_.
     bnd (global_ref render_globals ''super'') (\<lambda>_.
     bnd (global_ref render_globals ''PremiereUploadVersionPlugin'') (\<lambda>_.
     bnd (call_super SuperPublish (super_publish h settings)) (\<lambda>_.
     bnd get_item (\<lambda>i3.
     bnd (lift (py_extend
            (if truthy (dict_get (properties i3) ''sg_publish_data'' PNone)
             then [dict_get (properties i3) ''sg_publish_data'' PNone] else [])
            (dict_get (properties i3) ''published_renderings'' (PList [])))) (\<lambda>published_files.
     bnd (ret (AList.update ''published_files'' (PList published_files) version_data))
       (\<lambda>version_data.
     bnd (global_ref render_globals ''pprint'') (\<lambda>_.
     bnd (emit (LogDebug ''Populated Version data...''
            (PDict [(''action_show_more_info'', PDict
               [(''label'', PStr ''Version Data''),
                (''tooltip'', PStr ''Show the complete Version data dictionary''),
                (''text'', PDict version_data)])]))) (\<lambda>_.
     bnd (emit (LogInfo ''Creating version for review...'')) (\<lambda>_.
     bnd (call (SgCreate ''Version'' version_data) (sg_create h ''Version'' version_data))
       (\<lambda>version.
     bnd (set_property ''sg_version_data'' version) (\<lambda>_.
     bnd (global_ref render_globals ''six'') (\<lambda>_.
     bnd (lift (ensure_str path_to_movie)) (\<lambda>upload_path.
     bnd (emit (LogInfo ''Uploading content...'')) (\<lambda>_.
     bnd (lift (py_getitem version ''id'')) (\<lambda>version_id.
     bnd (call (SgUpload ''Version'' version_id upload_path ''sg_uploaded_movie'')
            (sg_upload h ''Version'' version_id upload_path ''sg_uploaded_movie'')) (\<lambda>_.
     bnd (emit (LogInfo ''Upload complete!'')) (\<lambda>_.
     bnd (set_property ''upload_path'' upload_path) (\<lambda>_.
     ret PNone))))))))))))))))))))))))))))"

definition VersionPlugin_publish :: "host \<Rightarrow> settings \<Rightarrow> pyval prog" where
  "VersionPlugin_publish h settings =
     bnd (setting_value settings ''Publish Template'') (\<lambda>v.
     bnd (lift (get_template_by_name h v)) (\<lambda>publish_template.
     bnd (if truthy publish_template then set_property ''publish_template'' publish_template
          else ret ()) (\<lambda>_.
     bnd get_item (\<lambda>i.
     bnd (VersionPlugin_name_version (name i)) (\<lambda>(nm, version).
     bnd (lift (dict_getitem (properties i) ''publish_template'')) (\<lambda>template.
     bnd (lift (as_template_fields h (item_context i) template)) (\<lambda>flds.
     bnd (method_apply_fields h template
            (AList.update ''version'' (PInt version) (AList.update ''name'' (PStr nm) flds)))
       (\<lambda>path_to_movie.
     bnd (call (ExportAsMediaDirect path_to_movie preset 2)
            (exportAsMediaDirect h path_to_movie preset 2)) (\<lambda>_.
     if path_to_movie = PNone then
       bnd (emit (LogError ''No render path found'' PNone)) (\<lambda>_. ret PNone)
     else
       bnd (lift (get_file_path_components h path_to_movie)) (\<lambda>path_components.
       bnd (lift (py_getitem path_components ''filename'')) (\<lambda>publish_name.
       VersionPlugin_register_and_upload h settings i path_to_movie publish_name)))))))))))"

definition VersionPlugin_finalize :: "host \<Rightarrow> settings \<Rightarrow> unit prog" where
  "VersionPlugin_finalize h settings =
     bnd (global_ref render_globals ''super'') (\<lambda>_.
     bnd (global_ref render_globals ''PremiereUploadVersionPlugin'') (\<lambda>_.
     call_super SuperFinalize (super_finalize h settings)))"

section \<open>The EDL hook: \<^verbatim>\<open>PremiereUploadEDLPlugin\<close>\<close>


definition EDLPlugin_get_save_as_action :: "host \<Rightarrow> pyval" where
  "EDLPlugin_get_save_as_action h =
     PDict [(''action_button'', PDict
       [(''label'', PStr ''Save As...''),
        (''tooltip'', PStr ''Save the active project''),
        (''callback'', (case workfiles2 h of
             None \<Rightarrow> PCallable ''engine.save_as''
           | Some has_dlg \<Rightarrow>
               if has_dlg then PCallable ''show_file_save_dlg'' else PCallable ''engine.save_as''))])]"

definition EDLPlugin_get_version_entity :: "item \<Rightarrow> pyval prog" where
  "EDLPlugin_get_version_entity i =
     (if truthy (entity (item_context i)) then ret (entity (item_context i))
      else if truthy (project (item_context i)) then ret (project (item_context i))
      else ret PNone)"


definition EDLPlugin_validate :: "host \<Rightarrow> settings \<Rightarrow> pyval prog" where
  "EDLPlugin_validate h settings =
     bnd get_item (\<lambda>i.
     if \<not> truthy (project_path h) then
       bnd (emit (LogError (unsaved_message (name i)) (EDLPlugin_get_save_as_action h))) (\<lambda>_.
       bnd (global_ref xml_globals ''ProjectUnsavedError'') (\<lambda>_.
       raise (ProjectUnsavedError (unsaved_message (name i)))))
     else
       bnd (global_ref xml_globals ''sgtk'') (\<lambda>_.
       bnd (lift (normalize h (project_path h))) (\<lambda>path.
       bnd (if truthy (dict_get (properties i) ''work_template'' PNone) then
              bnd (method_validate h (dict_get (properties i) ''work_template'' PNone) path) (\<lambda>ok.
              if \<not> ok then
                emit (LogWarn ''The current project does not match the configured work template.''
                  (PDict [(''action_button'', PDict
                     [(''label'', PStr ''Save File''),
                      (''tooltip'', PStr ''Save the current Premiere projectto a different file name''),
                      (''callback'', EDLPlugin_get_save_as_action h)])]))
              else emit (LogDebug ''Work template configured and matches project path.'' PNone))
            else emit (LogDebug ''No work template configured.'' PNone)) (\<lambda>_.
       bnd (setting_value settings ''Publish Template'') (\<lambda>v.
       bnd (lift (get_template_by_name h v)) (\<lambda>publish_template.
       bnd (if truthy publish_template then set_property ''publish_template'' publish_template
            else ret ()) (\<lambda>_.
       bnd (global_ref xml_globals ''os'') (\<lambda>_.
       bnd (lift (basename h path)) (\<lambda>b.
       bnd (set_name b) (\<lambda>_.
       bnd (set_property ''path'' path) (\<lambda>_.
       bnd (global_ref xml_globals ''super'') (\<lambda>_.
       bnd (global_ref xml_globals ''PremiereUploadEDLPlugin'') (\<lambda>_.
       call_super SuperValidate (super_validate h settings))))))))))))))"

text \<open>Lines 257 to 259 of \<^verbatim>\<open>publish\<close>.\<close>

definition EDLPlugin_name_version :: "string \<Rightarrow> (string \<times> int) prog" where
  "EDLPlugin_name_version item_name =
     bnd (lift (py_index (py_split CHR ''.'' item_name) 0)) (\<lambda>nm.
     bnd (lift (py_index (py_split CHR ''.'' item_name) 1)) (\<lambda>version.
     bnd (global_ref xml_globals ''int'') (\<lambda>_.
     bnd (global_ref xml_globals ''re'') (\<lambda>_.
     bnd (lift (py_index (findall_3digits nm) (- 1))) (\<lambda>digits.
     bnd (lift (py_int digits)) (\<lambda>version.
     ret (nm, version)))))))"

definition EDLPlugin_publish :: "host \<Rightarrow> settings \<Rightarrow> pyval prog" where
  "EDLPlugin_publish h settings =
     bnd (setting_value settings ''Publish Template'') (\<lambda>v.
     bnd (lift (get_template_by_name h v)) (\<lambda>publish_template.
     bnd (if truthy publish_template then set_property ''publish_template'' publish_template
          else ret ()) (\<lambda>_.
     bnd get_item (\<lambda>i.
     bnd (EDLPlugin_name_version (name i)) (\<lambda>(nm, version).
     bnd (lift (dict_getitem (properties i) ''publish_template'')) (\<lambda>template.
     bnd (lift (as_template_fields h (item_context i) template)) (\<lambda>flds.
     bnd (method_apply_fields h template
            (AList.update ''version'' (PInt version) (AList.update ''name'' (PStr nm) flds)))
       (\<lambda>path_to_xml.
     bnd (call (ExportAsFinalCutProXML path_to_xml 1)
            (exportAsFinalCutProXML h path_to_xml 1)) (\<lambda>_.
     if path_to_xml = PNone then
       bnd (emit (LogError ''No render path found'' PNone)) (\<lambda>_. ret PNone)
     else
       bnd (set_property ''path'' path_to_xml) (\<lambda>_.
       bnd (set_property ''publish_type'' (PStr ''Rendered Image'')) (\<lambda>_.
       bnd (global_ref xml_globals ''super'') (\<lambda>_.
       bnd (global_ref xml_globals ''PremiereUploadEDLPlugin'') (\<lambda>_.
       bnd (call_super SuperPublish (super_publish h settings)) (\<lambda>_.
       bnd (emit (LogInfo ''Publish complete!'')) (\<lambda>_.
       ret PNone)))))))))))))))"

definition EDLPlugin_finalize :: "host \<Rightarrow> settings \<Rightarrow> unit prog" where
  "EDLPlugin_finalize h settings =
     bnd (global_ref xml_globals ''super'') (\<lambda>_.
     bnd (global_ref xml_globals ''PremiereUploadEDLPlugin'') (\<lambda>_.
     call_super SuperFinalize (super_finalize h settings)))"

section \<open>Observations on a run and sample inputs\<close>

text \<open>The events that register a publish, create a Version or upload media.\<close>

fun is_registration :: "event \<Rightarrow> bool" where
  "is_registration SuperPublish = True"
| "is_registration (SgCreate t d) = True"
| "is_registration (SgUpload t i p f) = True"
| "is_registration ev = False"

text \<open>A saved project in a configured environment where every collaborator succeeds.\<close>

definition example_context :: context_obj where
  "example_context =
     \<lparr>entity = PDict [(''type'', PStr ''Shot''), (''id'', PInt 1200)],
      project = PDict [(''type'', PStr ''Project''), (''id'', PInt 70)],
      task = PNone\<rparr>"

definition example_item :: item where
  "example_item =
     \<lparr>name = ''shot010_v003.prproj'',
      description = PStr ''first cut'',
      item_context = example_context,
      properties = [(''sg_publish_data'', PDict [])],
      context_change_allowed = True\<rparr>"

definition example_state :: pstate where
  "example_state = \<lparr>the_item = example_item, trace = []\<rparr>"

definition example_settings :: settings where
  "example_settings = [''Publish Template'' \<mapsto> PStr ''premiere_publish'']"

definition example_host :: host where
  "example_host =
     \<lparr>project_path = PStr ''/projects/shot010_v003.prproj'',
      workfiles2 = None,
      get_template_by_name = (\<lambda>v. Inr (case v of PStr n \<Rightarrow> PTemplate n | _ \<Rightarrow> PNone)),
      normalize = (\<lambda>p. Inr p),
      basename = (\<lambda>p. Inr ''shot010_v003.prproj''),
      template_validate = (\<lambda>t p. Inr False),
      as_template_fields = (\<lambda>c t. Inr [(''Shot'', PStr ''shot010'')]),
      apply_fields = (\<lambda>t f. Inr (PStr ''/publish/shot010_v003.mov'')),
      exportAsMediaDirect = (\<lambda>p q m. Inr ()),
      exportAsFinalCutProXML = (\<lambda>p m. Inr ()),
      get_file_path_components = (\<lambda>p. Inr (PDict [(''filename'', PStr ''shot010_v003.mov'')])),
      super_validate = (\<lambda>st i. (Inr (PBool True), i)),
      super_publish = (\<lambda>st i. (Inr (), i)),
      super_finalize = (\<lambda>st i. (Inr (), i)),
      sg_create = (\<lambda>t d. Inr (PDict [(''type'', PStr t), (''id'', PInt 42)])),
      sg_upload = (\<lambda>t i p f. Inr ())\<rparr>"

section \<open>Running a method step by step\<close>

lemma bnd_ret [simp]: "bnd (ret x) f = f x"
  by (simp add: fun_eq_iff bnd_def ret_def)

lemma bnd_raise [simp]: "bnd (raise e) f = raise e"
  by (simp add: fun_eq_iff bnd_def raise_def)

lemma bnd_lift_Inr [simp]: "bnd (lift (Inr x)) f = f x"
  by (simp add: fun_eq_iff bnd_def lift_def)

lemma bnd_lift_Inl [simp]: "bnd (lift (Inl e)) f = raise e"
  by (simp add: fun_eq_iff bnd_def lift_def raise_def)

lemma bnd_emit [simp]: "bnd (emit ev) f s = f () (s\<lparr>trace := trace s @ [ev]\<rparr>)"
  by (simp add: bnd_def emit_def)

lemma bnd_call [simp]: "bnd (call ev r) f s = bnd (lift r) f (s\<lparr>trace := trace s @ [ev]\<rparr>)"
  by (simp add: bnd_def call_def emit_def lift_def)

lemma bnd_get_item [simp]: "bnd get_item f s = f (the_item s) s"
  by (simp add: bnd_def get_item_def)

lemma bnd_set_property [simp]:
  "bnd (set_property k v) f s =
     f () (s\<lparr>the_item := (the_item s)\<lparr>properties := AList.update k v (properties (the_item s))\<rparr>\<rparr>)"
  by (simp add: bnd_def set_property_def)

lemma bnd_set_name [simp]:
  "bnd (set_name n) f s = f () (s\<lparr>the_item := (the_item s)\<lparr>name := n\<rparr>\<rparr>)"
  by (simp add: bnd_def set_name_def)

lemma bnd_set_context_change_allowed [simp]:
  "bnd (set_context_change_allowed b) f s =
     f () (s\<lparr>the_item := (the_item s)\<lparr>context_change_allowed := b\<rparr>\<rparr>)"
  by (simp add: bnd_def set_context_change_allowed_def)

lemma render_global_ref [simp]:
  "global_ref render_globals ''sgtk'' = ret ()"
  "global_ref render_globals ''os'' = ret ()"
  "global_ref render_globals ''re'' = ret ()"
  "global_ref render_globals ''int'' = ret ()"
  "global_ref render_globals ''super'' = ret ()"
  "global_ref render_globals ''pprint'' = ret ()"
  "global_ref render_globals ''six'' = ret ()"
  "global_ref render_globals ''PremiereUploadVersionPlugin'' = ret ()"
  "global_ref render_globals ''ProjectUnsavedError'' = raise (NameError ''ProjectUnsavedError'')"
  by (simp_all add: global_ref_def render_globals_def builtins_def)

lemma xml_global_ref [simp]:
  "global_ref xml_globals ''sgtk'' = ret ()"
  "global_ref xml_globals ''os'' = ret ()"
  "global_ref xml_globals ''re'' = raise (NameError ''re'')"
  "global_ref xml_globals ''int'' = ret ()"
  "global_ref xml_globals ''super'' = ret ()"
  "global_ref xml_globals ''PremiereUploadEDLPlugin'' = ret ()"
  "global_ref xml_globals ''ProjectUnsavedError'' = raise (NameError ''ProjectUnsavedError'')"
  by (simp_all add: global_ref_def xml_globals_def builtins_def)

lemmas example_defs =
  example_host_def example_item_def example_state_def example_settings_def example_context_def

section \<open>The version entity\<close>

text \<open>
  C8. \<^verbatim>\<open>_get_version_entity(item)\<close>, in either hook, returns the context's entity when
  it is set, otherwise the context's project when that is set, otherwise \<^verbatim>\<open>None\<close>;
  it never raises and leaves the item and the trace as they were. "Set" is what the
  code tests: the value is true in a condition, as every entity dictionary of the host is
  and \<^verbatim>\<open>None\<close> is not.
\<close>

theorem get_version_entity_choice:
  "(truthy (entity (item_context i)) \<longrightarrow>
      VersionPlugin_get_version_entity i s = (Inr (entity (item_context i)), s) \<and>
      EDLPlugin_get_version_entity i s = (Inr (entity (item_context i)), s)) \<and>
   (\<not> truthy (entity (item_context i)) \<and> truthy (project (item_context i)) \<longrightarrow>
      VersionPlugin_get_version_entity i s = (Inr (project (item_context i)), s) \<and>
      EDLPlugin_get_version_entity i s = (Inr (project (item_context i)), s)) \<and>
   (\<not> truthy (entity (item_context i)) \<and> \<not> truthy (project (item_context i)) \<longrightarrow>
      VersionPlugin_get_version_entity i s = (Inr PNone, s) \<and>
      EDLPlugin_get_version_entity i s = (Inr PNone, s))"
  by (simp add: VersionPlugin_get_version_entity_def EDLPlugin_get_version_entity_def ret_def)

theorem get_version_entity_choice_witness:
  "truthy (entity (item_context example_item)) \<and>
   VersionPlugin_get_version_entity example_item example_state =
     (Inr (PDict [(''type'', PStr ''Shot''), (''id'', PInt 1200)]), example_state) \<and>
   EDLPlugin_get_version_entity example_item example_state =
     (Inr (PDict [(''type'', PStr ''Shot''), (''id'', PInt 1200)]), example_state) \<and>
   VersionPlugin_get_version_entity
       (example_item\<lparr>item_context := example_context\<lparr>entity := PNone\<rparr>\<rparr>) example_state =
     (Inr (PDict [(''type'', PStr ''Project''), (''id'', PInt 70)]), example_state) \<and>
   EDLPlugin_get_version_entity
       (example_item\<lparr>item_context := example_context\<lparr>entity := PNone\<rparr>\<rparr>) example_state =
     (Inr (PDict [(''type'', PStr ''Project''), (''id'', PInt 70)]), example_state) \<and>
   VersionPlugin_get_version_entity
       (example_item\<lparr>item_context := example_context\<lparr>entity := PNone, project := PNone\<rparr>\<rparr>)
       example_state = (Inr PNone, example_state) \<and>
   EDLPlugin_get_version_entity
       (example_item\<lparr>item_context := example_context\<lparr>entity := PNone, project := PNone\<rparr>\<rparr>)
       example_state = (Inr PNone, example_state)"
  using get_version_entity_choice [of example_item example_state]
    get_version_entity_choice
      [of "example_item\<lparr>item_context := example_context\<lparr>entity := PNone\<rparr>\<rparr>" example_state]
    get_version_entity_choice
      [of "example_item\<lparr>item_context := example_context\<lparr>entity := PNone, project := PNone\<rparr>\<rparr>"
          example_state]
  by (simp add: example_item_def example_context_def)

section \<open>The unsaved project\<close>

text \<open>
  C1. When the project has no path, \<^verbatim>\<open>validate\<close> of either hook logs an error that
  carries the save-as action and then does not return normally. The statement it runs is
  \<^verbatim>\<open>raise ProjectUnsavedError(error_msg)\<close>, but neither module binds the name
  \<^verbatim>\<open>ProjectUnsavedError\<close>, so what is raised is the \<^verbatim>\<open>NameError\<close> of that
  reference and not an exception of the domain type.
\<close>

theorem validate_unsaved_raises_NameError:
  "\<not> truthy (project_path h) \<Longrightarrow>
     VersionPlugin_validate h settings s =
       (Inl (NameError ''ProjectUnsavedError''),
        s\<lparr>trace := trace s @ [LogError (unsaved_message (name (the_item s)))
                                  (VersionPlugin_get_save_as_action h)]\<rparr>) \<and>
     EDLPlugin_validate h settings s =
       (Inl (NameError ''ProjectUnsavedError''),
        s\<lparr>trace := trace s @ [LogError (unsaved_message (name (the_item s)))
                                  (EDLPlugin_get_save_as_action h)]\<rparr>)"
  by (simp add: VersionPlugin_validate_def EDLPlugin_validate_def raise_def)

theorem validate_unsaved_raises_NameError_witness:
  "\<not> truthy (project_path (example_host\<lparr>project_path := PNone\<rparr>)) \<and>
   VersionPlugin_validate (example_host\<lparr>project_path := PNone\<rparr>) example_settings example_state =
     (Inl (NameError ''ProjectUnsavedError''),
      example_state\<lparr>trace :=
        [LogError (unsaved_message ''shot010_v003.prproj'')
           (PDict [(''action_button'', PDict
              [(''label'', PStr ''Save As...''),
               (''tooltip'', PStr ''Save the active project''),
               (''callback'', PCallable ''engine.save_as'')])])]\<rparr>) \<and>
   EDLPlugin_validate (example_host\<lparr>project_path := PNone\<rparr>) example_settings example_state =
     (Inl (NameError ''ProjectUnsavedError''),
      example_state\<lparr>trace :=
        [LogError (unsaved_message ''shot010_v003.prproj'')
           (PDict [(''action_button'', PDict
              [(''label'', PStr ''Save As...''),
               (''tooltip'', PStr ''Save the active project''),
               (''callback'', PCallable ''engine.save_as'')])])]\<rparr>)"
  using validate_unsaved_raises_NameError
    [of "example_host\<lparr>project_path := PNone\<rparr>" example_settings example_state]
  by (simp add: example_defs VersionPlugin_get_save_as_action_def EDLPlugin_get_save_as_action_def)

section \<open>Acceptance\<close>



section \<open>Splitting, indexing and pattern matches\<close>

lemma py_split_not_Nil: "py_split c s \<noteq> []"
  by (induction s) (auto split: list.splits)

lemma hd_py_split: "hd (py_split c s) = takeWhile (\<lambda>x. x \<noteq> c) s"
  by (induction s) (auto split: list.splits simp: py_split_not_Nil)

lemma py_split_no_separator: "c \<notin> set s \<Longrightarrow> py_split c s = [s]"
  by (induction s) auto

lemma length_py_split_separator: "c \<in> set s \<Longrightarrow> 2 \<le> length (py_split c s)"
proof (induction s)
  case Nil
  then show ?case by simp
next
  case (Cons x xs)
  show ?case
  proof (cases "x = c")
    case True
    then show ?thesis
      using py_split_not_Nil [of c xs] by (cases "py_split c xs") auto
  next
    case False
    with Cons show ?thesis
      by (cases "py_split c xs") auto
  qed
qed

lemma py_index_first: "xs \<noteq> [] \<Longrightarrow> py_index xs 0 = Inr (hd xs)"
  by (cases xs) (simp_all add: py_index_def)

lemma py_index_last: "xs \<noteq> [] \<Longrightarrow> py_index xs (- 1) = Inr (last xs)"
  by (cases xs rule: rev_cases) (simp_all add: py_index_def)

lemma py_index_second_singleton: "py_index [x] 1 = Inl IndexError"
  by (simp add: py_index_def)

lemma py_index_second: "2 \<le> length xs \<Longrightarrow> py_index xs 1 = Inr (xs ! 1)"
  by (simp add: py_index_def)

lemma v_not_digit: "\<not> is_digit CHR ''v''"
  by (simp add: is_digit_def)

lemma findall_v_digits_shape:
  "m \<in> set (findall_v_digits s) \<Longrightarrow>
     \<exists>ds. m = CHR ''v'' # ds \<and> ds \<noteq> [] \<and> list_all is_digit ds"
proof (induction s rule: findall_v_digits.induct)
  case 1
  then show ?case by simp
next
  case (2 c cs)
  show ?case
  proof (cases "c = CHR ''v'' \<and> takeWhile is_digit cs \<noteq> []")
    case True
    with 2 show ?thesis
      by (auto simp: list_all_iff dest: set_takeWhileD)
  next
    case False
    with 2 show ?thesis by auto
  qed
qed

lemma takeWhile_all: "list_all P xs \<Longrightarrow> takeWhile P xs = xs"
  by (induction xs) auto

lemma dropWhile_all: "list_all P xs \<Longrightarrow> dropWhile P xs = []"
  by (induction xs) auto

lemma findall_digits_of_match:
  "ds \<noteq> [] \<Longrightarrow> list_all is_digit ds \<Longrightarrow> findall_digits (CHR ''v'' # ds) = [ds]"
  by (cases ds) (simp_all add: v_not_digit takeWhile_all dropWhile_all)

lemma py_int_digits: "ds \<noteq> [] \<Longrightarrow> list_all is_digit ds \<Longrightarrow> py_int ds = Inr (digits_value ds)"
  by (simp add: py_int_def)

lemma bnd_setting_value:
  "bnd (setting_value settings k) f s =
     (case settings k of None \<Rightarrow> (Inl (AttributeError ''value''), s) | Some v \<Rightarrow> f v s)"
  by (simp add: setting_value_def raise_def split: option.splits)

lemma bnd_Inl: "m s = (Inl e, s') \<Longrightarrow> bnd m f s = (Inl e, s')"
  by (simp add: bnd_def)

lemma bnd_Inr: "m s = (Inr x, s') \<Longrightarrow> bnd m f s = f x s'"
  by (simp add: bnd_def)

section \<open>Name and version in the movie hook\<close>

text \<open>
  The matches of \<^verbatim>\<open>v[0-9]+\<close> in terms of the string alone: there is one exactly
  when some \<^verbatim>\<open>v\<close> has a digit after it, and the last one is the \<^verbatim>\<open>v\<close> with its
  whole run of digits after which no \<^verbatim>\<open>v\<close> has a digit after it. The value
  \<^const>\<open>digits_value\<close> gives is the sum of the digits times their powers of ten.
\<close>

lemma takeWhile_is_digit_not_Nil:
  "takeWhile is_digit cs \<noteq> [] \<longleftrightarrow> cs \<noteq> [] \<and> is_digit (hd cs)"
  by (cases cs) simp_all

lemma v_digit_at_Cons:
  "(\<exists>j. v_digit_at (c # cs) j) \<longleftrightarrow>
     (c = CHR ''v'' \<and> cs \<noteq> [] \<and> is_digit (hd cs)) \<or> (\<exists>j. v_digit_at cs j)"
proof
  assume "\<exists>j. v_digit_at (c # cs) j"
  then obtain j where j: "v_digit_at (c # cs) j" by blast
  show "(c = CHR ''v'' \<and> cs \<noteq> [] \<and> is_digit (hd cs)) \<or> (\<exists>j. v_digit_at cs j)"
  proof (cases j)
    case 0
    with j show ?thesis by (cases cs) simp_all
  next
    case (Suc k)
    with j have "v_digit_at cs k" by simp
    then show ?thesis by blast
  qed
next
  assume "(c = CHR ''v'' \<and> cs \<noteq> [] \<and> is_digit (hd cs)) \<or> (\<exists>j. v_digit_at cs j)"
  then show "\<exists>j. v_digit_at (c # cs) j"
  proof
    assume "c = CHR ''v'' \<and> cs \<noteq> [] \<and> is_digit (hd cs)"
    then have "v_digit_at (c # cs) 0" by (cases cs) simp_all
    then show ?thesis by blast
  next
    assume "\<exists>j. v_digit_at cs j"
    then obtain k where "v_digit_at cs k" by blast
    then have "v_digit_at (c # cs) (Suc k)" by simp
    then show ?thesis by blast
  qed
qed

lemma findall_v_digits_Nil_iff:
  "findall_v_digits s \<noteq> [] \<longleftrightarrow> (\<exists>j. v_digit_at s j)"
proof (induction s rule: findall_v_digits.induct)
  case 1
  then show ?case by simp
next
  case (2 c cs)
  show ?case
  proof (cases "c = CHR ''v'' \<and> takeWhile is_digit cs \<noteq> []")
    case True
    then have "findall_v_digits (c # cs) \<noteq> []" by simp
    moreover have "\<exists>j. v_digit_at (c # cs) j"
      using True v_digit_at_Cons [of c cs] takeWhile_is_digit_not_Nil [of cs] by blast
    ultimately show ?thesis by blast
  next
    case False
    then have same: "findall_v_digits (c # cs) = findall_v_digits cs" by auto
    have "(\<exists>j. v_digit_at (c # cs) j) \<longleftrightarrow> (\<exists>j. v_digit_at cs j)"
      using False v_digit_at_Cons [of c cs] takeWhile_is_digit_not_Nil [of cs] by blast
    with same 2(2) [OF False] show ?thesis by simp
  qed
qed

lemma findall_v_digits_last_decomposition:
  "findall_v_digits s \<noteq> [] \<Longrightarrow>
     \<exists>pre ds post. s = pre @ CHR ''v'' # ds @ post \<and> ds \<noteq> [] \<and> list_all is_digit ds \<and>
        (post = [] \<or> \<not> is_digit (hd post)) \<and> (\<forall>j. \<not> v_digit_at post j) \<and>
        last (findall_v_digits s) = CHR ''v'' # ds"
proof (induction s rule: findall_v_digits.induct)
  case 1
  then show ?case by simp
next
  case (2 c cs)
  show ?case
  proof (cases "c = CHR ''v'' \<and> takeWhile is_digit cs \<noteq> []")
    case match: True
    show ?thesis
    proof (cases "findall_v_digits (dropWhile is_digit cs) = []")
      case True
      then have none: "\<forall>j. \<not> v_digit_at (dropWhile is_digit cs) j"
        using findall_v_digits_Nil_iff [of "dropWhile is_digit cs"] by blast
      have tail: "dropWhile is_digit cs = [] \<or> \<not> is_digit (hd (dropWhile is_digit cs))"
        using hd_dropWhile [of is_digit cs] by blast
      have "c # cs = [] @ CHR ''v'' # takeWhile is_digit cs @ dropWhile is_digit cs"
        using match by simp
      moreover have "list_all is_digit (takeWhile is_digit cs)"
        by (auto simp: list_all_iff dest: set_takeWhileD)
      moreover have "last (findall_v_digits (c # cs)) = CHR ''v'' # takeWhile is_digit cs"
        using match True by simp
      ultimately show ?thesis
        using match none tail by blast
    next
      case False
      with 2(1) match obtain pre ds post where d:
        "dropWhile is_digit cs = pre @ CHR ''v'' # ds @ post" "ds \<noteq> []" "list_all is_digit ds"
        "post = [] \<or> \<not> is_digit (hd post)" "\<forall>j. \<not> v_digit_at post j"
        "last (findall_v_digits (dropWhile is_digit cs)) = CHR ''v'' # ds"
        by blast
      have "c # cs = (c # takeWhile is_digit cs @ pre) @ CHR ''v'' # ds @ post"
        using d(1) takeWhile_dropWhile_id [of is_digit cs] by (metis append.assoc append_Cons)
      moreover have "last (findall_v_digits (c # cs)) = CHR ''v'' # ds"
        using match False d(6) by simp
      ultimately show ?thesis
        using d(2-5) by blast
    qed
  next
    case nomatch: False
    then have same0: "findall_v_digits (c # cs) = findall_v_digits cs"
      by auto
    with 2(2) [OF nomatch] "2.prems" obtain pre ds post where d:
      "cs = pre @ CHR ''v'' # ds @ post" "ds \<noteq> []" "list_all is_digit ds"
      "post = [] \<or> \<not> is_digit (hd post)" "\<forall>j. \<not> v_digit_at post j"
      "last (findall_v_digits cs) = CHR ''v'' # ds"
      by auto
    have same: "findall_v_digits (c # cs) = findall_v_digits cs"
      using nomatch by auto
    have "c # cs = (c # pre) @ CHR ''v'' # ds @ post"
      using d(1) by simp
    moreover have "last (findall_v_digits (c # cs)) = CHR ''v'' # ds"
      using same d(6) by simp
    ultimately show ?thesis
      using d(2-5) by blast
  qed
qed

lemma digits_value_snoc:
  "digits_value (ds @ [d]) = 10 * digits_value ds + (of_char d - 48)"
  by (simp add: digits_value_def)

lemma digits_value_decimal:
  "digits_value ds = (\<Sum>k<length ds. (of_char (ds ! k) - 48) * 10 ^ (length ds - Suc k))"
proof (induction ds rule: rev_induct)
  case Nil
  then show ?case by (simp add: digits_value_def)
next
  case (snoc d ds)
  have "(\<Sum>k<length ds. (of_char ((ds @ [d]) ! k) - 48) * (10::int) ^ (length (ds @ [d]) - Suc k)) =
        (\<Sum>k<length ds. 10 * ((of_char (ds ! k) - 48) * 10 ^ (length ds - Suc k)))"
  proof (rule sum.cong)
    fix k assume "k \<in> {..<length ds}"
    then have k: "k < length ds" by simp
    then have "length (ds @ [d]) - Suc k = Suc (length ds - Suc k)" by simp
    with k show "(of_char ((ds @ [d]) ! k) - 48) * (10::int) ^ (length (ds @ [d]) - Suc k) =
        10 * ((of_char (ds ! k) - 48) * 10 ^ (length ds - Suc k))"
      by (simp add: nth_append)
  qed simp
  then show ?case
    using snoc by (simp add: digits_value_snoc sum_distrib_left)
qed

lemma takeWhile_digit_run:
  "list_all is_digit ds \<Longrightarrow> post = [] \<or> \<not> is_digit (hd post) \<Longrightarrow>
     takeWhile is_digit (ds @ post) = ds"
  by (cases post) (simp_all add: list_all_iff takeWhile_append2)

lemma dropWhile_digit_run:
  "list_all is_digit ds \<Longrightarrow> post = [] \<or> \<not> is_digit (hd post) \<Longrightarrow>
     dropWhile is_digit (ds @ post) = post"
  by (cases post) (simp_all add: list_all_iff dropWhile_append2)

lemma findall_v_digits_last_occurrence:
  assumes "ds \<noteq> []" and "list_all is_digit ds"
    and "post = [] \<or> \<not> is_digit (hd post)" and "\<forall>j. \<not> v_digit_at post j"
  shows "findall_v_digits (pre @ CHR ''v'' # ds @ post) \<noteq> [] \<and>
         last (findall_v_digits (pre @ CHR ''v'' # ds @ post)) = CHR ''v'' # ds"
proof (induction "pre @ CHR ''v'' # ds @ post" arbitrary: pre rule: findall_v_digits.induct)
  case 1
  then show ?case by simp
next
  case (2 c cs)
  have post_none: "findall_v_digits post = []"
    using assms(4) findall_v_digits_Nil_iff [of post] by blast
  show ?case
  proof (cases pre)
    case Nil
    with 2(3) have c: "c = CHR ''v''" and cs: "cs = ds @ post" by simp_all
    have "findall_v_digits (c # cs) = [CHR ''v'' # ds]"
      using c cs assms(1-3) post_none
      by (simp add: takeWhile_digit_run dropWhile_digit_run)
    moreover have "pre @ CHR ''v'' # ds @ post = c # cs"
      using 2(3) by simp
    ultimately show ?thesis by simp
  next
    case (Cons x pre')
    with 2(3) have x: "x = c" and cs: "cs = pre' @ CHR ''v'' # ds @ post" by simp_all
    show ?thesis
    proof (cases "c = CHR ''v'' \<and> takeWhile is_digit cs \<noteq> []")
      case True
      have "dropWhile is_digit cs = dropWhile is_digit pre' @ CHR ''v'' # ds @ post"
        using cs by (simp add: dropWhile_append3 v_not_digit)
      from 2(1) [OF True this]
      have "findall_v_digits (dropWhile is_digit cs) \<noteq> [] \<and>
            last (findall_v_digits (dropWhile is_digit cs)) = CHR ''v'' # ds"
        using \<open>dropWhile is_digit cs = dropWhile is_digit pre' @ CHR ''v'' # ds @ post\<close>
        by simp
      moreover have "findall_v_digits (c # cs) =
          (c # takeWhile is_digit cs) # findall_v_digits (dropWhile is_digit cs)"
        using True by simp
      moreover have "pre @ CHR ''v'' # ds @ post = c # cs"
        using 2(3) by simp
      ultimately show ?thesis
        by simp
    next
      case False
      then have same: "findall_v_digits (c # cs) = findall_v_digits cs" by auto
      have whole: "pre @ CHR ''v'' # ds @ post = c # cs"
        using 2(3) by simp
      have "findall_v_digits cs \<noteq> [] \<and> last (findall_v_digits cs) = CHR ''v'' # ds"
        using 2(2) [OF False cs] cs by simp
      then show ?thesis
        unfolding whole same .
    qed
  qed
qed

lemma VersionPlugin_name_version_run:
  "findall_v_digits item_name \<noteq> [] \<Longrightarrow>
     VersionPlugin_name_version item_name s =
       (Inr (takeWhile (\<lambda>c. c \<noteq> CHR ''.'') item_name,
             digits_value (tl (last (findall_v_digits item_name)))), s)"
proof -
  assume ne: "findall_v_digits item_name \<noteq> []"
  then have "last (findall_v_digits item_name) \<in> set (findall_v_digits item_name)"
    by simp
  then obtain ds where ds: "last (findall_v_digits item_name) = CHR ''v'' # ds"
      "ds \<noteq> []" "list_all is_digit ds"
    using findall_v_digits_shape by blast
  with ne show ?thesis
    by (simp add: VersionPlugin_name_version_def py_index_first py_split_not_Nil hd_py_split
        py_index_last findall_digits_of_match py_int_digits ret_def
        del: findall_digits.simps)
qed

text \<open>
  C3. In the movie hook's \<^verbatim>\<open>publish\<close>, an item name in which some \<^verbatim>\<open>v\<close> is
  followed by a digit can be split as \<open>pre @ v # ds @ post\<close>, where \<open>ds\<close> is a
  non-empty run of digits that stops at the end of the name or at a character that is not
  a digit, and no \<^verbatim>\<open>v\<close> in \<open>post\<close> is followed by a digit: \<open>v # ds\<close> is the last
  match of \<^verbatim>\<open>v\<close> followed by digits. For every such split the derived version is the
  integer that \<open>ds\<close> writes in decimal, the derived name is the item name up to its first
  dot, and the state is not touched. The name \<^verbatim>\<open>shot010_v003.prproj\<close> gives
  \<^verbatim>\<open>shot010_v003\<close> and 3; \<^verbatim>\<open>a_v1_v22.v333.v.mov\<close>, with three matches, gives
  \<^verbatim>\<open>a_v1_v22\<close> and 333.
\<close>

theorem VersionPlugin_name_version_last_match:
  "((\<exists>j. Suc j < length item_name \<and> item_name ! j = CHR ''v'' \<and>
         item_name ! Suc j \<in> set ''0123456789'') \<longrightarrow>
      (\<exists>pre ds post. item_name = pre @ CHR ''v'' # ds @ post \<and>
         ds \<noteq> [] \<and> set ds \<subseteq> set ''0123456789'' \<and>
         (post = [] \<or> hd post \<notin> set ''0123456789'') \<and>
         (\<forall>j. \<not> (Suc j < length post \<and> post ! j = CHR ''v'' \<and>
                 post ! Suc j \<in> set ''0123456789'')))) \<and>
   (item_name = pre @ CHR ''v'' # ds @ post \<and>
    ds \<noteq> [] \<and> set ds \<subseteq> set ''0123456789'' \<and>
    (post = [] \<or> hd post \<notin> set ''0123456789'') \<and>
    (\<forall>j. \<not> (Suc j < length post \<and> post ! j = CHR ''v'' \<and>
            post ! Suc j \<in> set ''0123456789'')) \<longrightarrow>
      VersionPlugin_name_version item_name s =
        (Inr (takeWhile (\<lambda>c. c \<noteq> CHR ''.'') item_name,
              (\<Sum>k<length ds. (of_char (ds ! k) - 48) * 10 ^ (length ds - Suc k))), s))"
proof -
  have isd: "\<And>c. (c \<in> set ''0123456789'') = is_digit c"
    by (simp only: is_digit_def)
  have dig: "\<And>xs. (set xs \<subseteq> set ''0123456789'') = list_all is_digit xs"
    by (simp only: list_all_iff Ball_def subset_iff is_digit_def)
  have exist: "\<exists>pre ds post. item_name = pre @ CHR ''v'' # ds @ post \<and>
         ds \<noteq> [] \<and> list_all is_digit ds \<and> (post = [] \<or> \<not> is_digit (hd post)) \<and>
         (\<forall>j. \<not> v_digit_at post j)"
    if "\<exists>j. v_digit_at item_name j"
  proof -
    from that have "findall_v_digits item_name \<noteq> []"
      using findall_v_digits_Nil_iff by blast
    from findall_v_digits_last_decomposition [OF this] show ?thesis by blast
  qed
  have run: "VersionPlugin_name_version item_name s =
        (Inr (takeWhile (\<lambda>c. c \<noteq> CHR ''.'') item_name,
              (\<Sum>k<length ds. (of_char (ds ! k) - 48) * 10 ^ (length ds - Suc k))), s)"
    if "item_name = pre @ CHR ''v'' # ds @ post" "ds \<noteq> []" "list_all is_digit ds"
      "post = [] \<or> \<not> is_digit (hd post)" "\<forall>j. \<not> v_digit_at post j"
  proof -
    from findall_v_digits_last_occurrence [OF that(2-5), of pre] that(1)
    have "findall_v_digits item_name \<noteq> []"
      and "last (findall_v_digits item_name) = CHR ''v'' # ds"
      by simp_all
    then show ?thesis
      using VersionPlugin_name_version_run [of item_name s] digits_value_decimal [of ds]
      by simp
  qed
  show ?thesis
    unfolding isd dig using exist run by blast
qed

theorem VersionPlugin_name_version_last_match_witness:
  "''shot010_v003.prproj'' = ''shot010_'' @ CHR ''v'' # ''003'' @ ''.prproj'' \<and>
   VersionPlugin_name_version ''shot010_v003.prproj'' example_state =
     (Inr (''shot010_v003'', 3), example_state) \<and>
   ''a_v1_v22.v333.v.mov'' = ''a_v1_v22.'' @ CHR ''v'' # ''333'' @ ''.v.mov'' \<and>
   VersionPlugin_name_version ''a_v1_v22.v333.v.mov'' example_state =
     (Inr (''a_v1_v22'', 333), example_state) \<and>
   ''cut_v12_v907'' = ''cut_v12_'' @ CHR ''v'' # ''907'' @ [] \<and>
   VersionPlugin_name_version ''cut_v12_v907'' example_state =
     (Inr (''cut_v12_v907'', 907), example_state)"
proof -
  have empty1: "findall_v_digits ''.prproj'' = []"
    by (simp add: is_digit_def)
  have none1: "\<forall>j. \<not> (Suc j < length ''.prproj'' \<and> ''.prproj'' ! j = CHR ''v'' \<and>
            ''.prproj'' ! Suc j \<in> set ''0123456789'')"
    using findall_v_digits_Nil_iff [of "''.prproj''"] empty1
    unfolding is_digit_def by blast
  have empty2: "findall_v_digits ''.v.mov'' = []"
    by (simp add: is_digit_def)
  have none2: "\<forall>j. \<not> (Suc j < length ''.v.mov'' \<and> ''.v.mov'' ! j = CHR ''v'' \<and>
            ''.v.mov'' ! Suc j \<in> set ''0123456789'')"
    using findall_v_digits_Nil_iff [of "''.v.mov''"] empty2
    unfolding is_digit_def by blast
  have none3: "\<forall>j. \<not> (Suc j < length ([] :: string) \<and> ([] :: string) ! j = CHR ''v'' \<and>
            ([] :: string) ! Suc j \<in> set ''0123456789'')"
    by simp
  have run1: "VersionPlugin_name_version ''shot010_v003.prproj'' example_state =
        (Inr (takeWhile (\<lambda>c. c \<noteq> CHR ''.'') ''shot010_v003.prproj'',
              (\<Sum>k<length ''003''. (of_char (''003'' ! k) - 48) * 10 ^ (length ''003'' - Suc k))),
         example_state)"
  proof (rule VersionPlugin_name_version_last_match
      [of "''shot010_v003.prproj''" "''shot010_''" "''003''" "''.prproj''" example_state,
       THEN conjunct2, THEN mp], intro conjI)
    show "\<forall>j. \<not> (Suc j < length ''.prproj'' \<and> ''.prproj'' ! j = CHR ''v'' \<and>
            ''.prproj'' ! Suc j \<in> set ''0123456789'')"
      by (rule none1)
  qed simp_all
  have run2: "VersionPlugin_name_version ''a_v1_v22.v333.v.mov'' example_state =
        (Inr (takeWhile (\<lambda>c. c \<noteq> CHR ''.'') ''a_v1_v22.v333.v.mov'',
              (\<Sum>k<length ''333''. (of_char (''333'' ! k) - 48) * 10 ^ (length ''333'' - Suc k))),
         example_state)"
  proof (rule VersionPlugin_name_version_last_match
      [of "''a_v1_v22.v333.v.mov''" "''a_v1_v22.''" "''333''" "''.v.mov''" example_state,
       THEN conjunct2, THEN mp], intro conjI)
    show "\<forall>j. \<not> (Suc j < length ''.v.mov'' \<and> ''.v.mov'' ! j = CHR ''v'' \<and>
            ''.v.mov'' ! Suc j \<in> set ''0123456789'')"
      by (rule none2)
  qed simp_all
  have run3: "VersionPlugin_name_version ''cut_v12_v907'' example_state =
        (Inr (takeWhile (\<lambda>c. c \<noteq> CHR ''.'') ''cut_v12_v907'',
              (\<Sum>k<length ''907''. (of_char (''907'' ! k) - 48) * 10 ^ (length ''907'' - Suc k))),
         example_state)"
  proof (rule VersionPlugin_name_version_last_match
      [of "''cut_v12_v907''" "''cut_v12_''" "''907''" "[]" example_state,
       THEN conjunct2, THEN mp], intro conjI)
    show "\<forall>j. \<not> (Suc j < length ([] :: string) \<and> ([] :: string) ! j = CHR ''v'' \<and>
            ([] :: string) ! Suc j \<in> set ''0123456789'')"
      by (rule none3)
  qed simp_all
  have "VersionPlugin_name_version ''shot010_v003.prproj'' example_state =
     (Inr (''shot010_v003'', 3), example_state)"
    using run1 by (simp add: lessThan_Suc)
  moreover have "VersionPlugin_name_version ''a_v1_v22.v333.v.mov'' example_state =
     (Inr (''a_v1_v22'', 333), example_state)"
    using run2 by (simp add: lessThan_Suc)
  moreover have "VersionPlugin_name_version ''cut_v12_v907'' example_state =
     (Inr (''cut_v12_v907'', 907), example_state)"
    using run3 by (simp add: lessThan_Suc)
  ultimately show ?thesis by simp
qed

section \<open>Name and version in the EDL hook\<close>

lemma EDLPlugin_name_version_no_separator:
  "CHR ''.'' \<notin> set item_name \<Longrightarrow> EDLPlugin_name_version item_name s = (Inl IndexError, s)"
  by (simp add: EDLPlugin_name_version_def py_split_no_separator py_index_first
      py_index_second_singleton raise_def)

lemma EDLPlugin_name_version_separator:
  "CHR ''.'' \<in> set item_name \<Longrightarrow> EDLPlugin_name_version item_name s = (Inl (NameError ''re''), s)"
  by (simp add: EDLPlugin_name_version_def py_index_first py_split_not_Nil
      py_index_second length_py_split_separator raise_def)

lemma EDLPlugin_name_version_raises: "\<exists>e. EDLPlugin_name_version item_name s = (Inl e, s)"
proof (cases "py_index (py_split CHR ''.'' item_name) 1")
  case (Inl e)
  then show ?thesis
    by (simp add: EDLPlugin_name_version_def py_index_first py_split_not_Nil raise_def)
next
  case (Inr v)
  then show ?thesis
    by (simp add: EDLPlugin_name_version_def py_index_first py_split_not_Nil raise_def)
qed

lemma bnd_EDLPlugin_name_version:
  "bnd (EDLPlugin_name_version item_name) f s =
     (Inl (if CHR ''.'' \<in> set item_name then NameError ''re'' else IndexError), s)"
  by (simp add: bnd_Inl EDLPlugin_name_version_no_separator EDLPlugin_name_version_separator)

lemma EDLPlugin_publish_raises:
  "\<exists>e s'. EDLPlugin_publish h settings s = (Inl e, s') \<and> trace s' = trace s"
proof (cases "settings ''Publish Template''")
  case None
  then show ?thesis
    by (simp add: EDLPlugin_publish_def bnd_setting_value)
next
  case (Some v)
  then show ?thesis
    by (cases "get_template_by_name h v")
      (simp_all add: EDLPlugin_publish_def bnd_setting_value raise_def
         bnd_EDLPlugin_name_version)
qed

text \<open>
  C2. The EDL hook is meant to take the version from the last run of three digits in the
  part of the item name before the first dot. \<^verbatim>\<open>publish_xml.py\<close> calls
  \<^verbatim>\<open>re.findall\<close> without importing \<^verbatim>\<open>re\<close>, so for \<^verbatim>\<open>shot010.010.prproj\<close>
  the extraction raises \<^verbatim>\<open>NameError\<close> where the version 10 was expected, and for no
  item name at all does it deliver a version.
\<close>

theorem EDLPlugin_name_version_NameError:
  "EDLPlugin_name_version ''shot010.010.prproj'' s = (Inl (NameError ''re''), s) \<and>
   (\<exists>e. EDLPlugin_name_version item_name s = (Inl e, s))"
  using EDLPlugin_name_version_raises [of item_name s]
    EDLPlugin_name_version_separator [of "''shot010.010.prproj''" s]
  by simp

text \<open>
  C10. In the EDL hook, an item name without a dot makes \<^verbatim>\<open>publish\<close> fail before
  anything is rendered or exported: the trace is unchanged. Once the
  \<^verbatim>\<open>"Publish Template"\<close> setting has been read and the template lookup has returned,
  the failure is the \<^verbatim>\<open>IndexError\<close> of \<^verbatim>\<open>item.name.split('.')[1]\<close>.
\<close>

theorem EDLPlugin_publish_no_separator:
  "CHR ''.'' \<notin> set (name (the_item s)) \<Longrightarrow>
     trace (snd (EDLPlugin_publish h settings s)) = trace s \<and>
     (\<exists>e. fst (EDLPlugin_publish h settings s) = Inl e) \<and>
     (settings ''Publish Template'' = Some v \<and> get_template_by_name h v = Inr pt \<longrightarrow>
        fst (EDLPlugin_publish h settings s) = Inl IndexError)"
proof -
  assume nodot: "CHR ''.'' \<notin> set (name (the_item s))"
  obtain e s' where run: "EDLPlugin_publish h settings s = (Inl e, s')" "trace s' = trace s"
    using EDLPlugin_publish_raises by blast
  have "fst (EDLPlugin_publish h settings s) = Inl IndexError"
    if "settings ''Publish Template'' = Some v" "get_template_by_name h v = Inr pt"
    using that nodot
    by (simp add: EDLPlugin_publish_def bnd_setting_value bnd_EDLPlugin_name_version)
  with run show ?thesis by simp
qed

theorem EDLPlugin_publish_no_separator_witness:
  "CHR ''.'' \<notin> set (name (the_item (example_state\<lparr>the_item := example_item\<lparr>name := ''shot010''\<rparr>\<rparr>))) \<and>
   example_settings ''Publish Template'' = Some (PStr ''premiere_publish'') \<and>
   get_template_by_name example_host (PStr ''premiere_publish'') = Inr (PTemplate ''premiere_publish'') \<and>
   fst (EDLPlugin_publish example_host example_settings
          (example_state\<lparr>the_item := example_item\<lparr>name := ''shot010''\<rparr>\<rparr>)) = Inl IndexError \<and>
   trace (snd (EDLPlugin_publish example_host example_settings
          (example_state\<lparr>the_item := example_item\<lparr>name := ''shot010''\<rparr>\<rparr>))) = []"
  using EDLPlugin_publish_no_separator
    [of "example_state\<lparr>the_item := example_item\<lparr>name := ''shot010''\<rparr>\<rparr>"
        example_host example_settings "PStr ''premiere_publish''" "PTemplate ''premiere_publish''"]
  by (simp add: example_host_def example_settings_def example_state_def)

section \<open>The missing render path\<close>

text \<open>
  C4, for the EDL hook. When the template renders no path, \<^verbatim>\<open>publish\<close> should log
  an error and return. The EDL hook never gets that far: whatever the host, the settings
  and the item, it raises before rendering and logs nothing. With a template that renders
  \<^verbatim>\<open>None\<close> and the item name \<^verbatim>\<open>shot010.010.prproj\<close> the result is the
  \<^verbatim>\<open>NameError\<close> of the missing import.
  The movie hook, whose module imports \<^verbatim>\<open>re\<close>, does reach the check (lemma
  \<open>VersionPlugin_publish_none_path\<close> below).
\<close>

theorem EDLPlugin_publish_never_reaches_path_check:
  "EDLPlugin_publish (example_host\<lparr>apply_fields := (\<lambda>t flds. Inr PNone)\<rparr>) example_settings
      (example_state\<lparr>the_item := example_item\<lparr>name := ''shot010.010.prproj''\<rparr>\<rparr>) =
     (Inl (NameError ''re''),
      \<lparr>the_item = example_item
         \<lparr>name := ''shot010.010.prproj'',
          properties := [(''sg_publish_data'', PDict []),
                         (''publish_template'', PTemplate ''premiere_publish'')]\<rparr>,
       trace = []\<rparr>) \<and>
   (\<exists>e s'. EDLPlugin_publish h settings s = (Inl e, s') \<and> trace s' = trace s)"
  using EDLPlugin_publish_raises [of h settings s]
  by (simp add: EDLPlugin_publish_def bnd_setting_value bnd_EDLPlugin_name_version example_defs)

section \<open>Runs of the movie hook\<close>

lemma VersionPlugin_name_version_no_match:
  "findall_v_digits item_name = [] \<Longrightarrow>
     VersionPlugin_name_version item_name s = (Inl IndexError, s)"
  by (simp add: VersionPlugin_name_version_def py_index_first py_split_not_Nil
      py_index_def raise_def)

lemma bnd_VersionPlugin_name_version:
  "bnd (VersionPlugin_name_version item_name) f s =
     (if findall_v_digits item_name = [] then (Inl IndexError, s)
      else f (takeWhile (\<lambda>c. c \<noteq> CHR ''.'') item_name,
              digits_value (tl (last (findall_v_digits item_name)))) s)"
  by (simp add: bnd_Inl [OF VersionPlugin_name_version_no_match]
      bnd_Inr [OF VersionPlugin_name_version_run])

lemma bnd_VersionPlugin_get_version_entity:
  "bnd (VersionPlugin_get_version_entity i) f =
     f (if truthy (entity (item_context i)) then entity (item_context i)
        else if truthy (project (item_context i)) then project (item_context i)
        else PNone)"
  by (simp add: VersionPlugin_get_version_entity_def)

lemma bnd_call_super:
  "bnd (call_super ev g) f s =
     bnd (lift (fst (g (the_item s)))) f
       (s\<lparr>the_item := snd (g (the_item s)), trace := trace s @ [ev]\<rparr>)"
  by (cases "g (the_item s)") (simp add: bnd_def call_super_def lift_def)


text \<open>
  The movie hook with a template that renders \<^verbatim>\<open>None\<close>: the export command is
  called with it, the error is logged and \<^verbatim>\<open>publish\<close> returns without an
  exception, with nothing registered, created or uploaded.
\<close>

lemma VersionPlugin_publish_none_path:
  assumes "settings ''Publish Template'' = Some v"
    and "get_template_by_name h v = Inr pt"
    and "props = (if truthy pt then AList.update ''publish_template'' pt (properties (the_item s))
                  else properties (the_item s))"
    and "findall_v_digits (name (the_item s)) \<noteq> []"
    and "map_of props ''publish_template'' = Some (PTemplate t)"
    and "as_template_fields h (item_context (the_item s)) (PTemplate t) = Inr flds"
    and "flds' = AList.update ''version''
           (PInt (digits_value (tl (last (findall_v_digits (name (the_item s)))))))
           (AList.update ''name'' (PStr (takeWhile (\<lambda>c. c \<noteq> CHR ''.'') (name (the_item s)))) flds)"
    and "apply_fields h t flds' = Inr PNone"
    and "exportAsMediaDirect h PNone preset 2 = Inr ()"
  shows "VersionPlugin_publish h settings s =
     (Inr PNone,
      \<lparr>the_item = (the_item s)\<lparr>properties := props\<rparr>,
       trace = trace s @ [ApplyFields t flds', ExportAsMediaDirect PNone preset 2,
                          LogError ''No render path found'' PNone]\<rparr>)"
  using assms
  by (cases "truthy pt")
    (simp_all add: VersionPlugin_publish_def bnd_setting_value bnd_VersionPlugin_name_version
      dict_getitem_def ret_def update_conv')

section \<open>The work template check\<close>



section \<open>Publishing without \<^verbatim>\<open>sg_publish_data\<close>\<close>

lemma VersionPlugin_register_and_upload_missing_key:
  "map_of (properties (the_item s)) ''sg_publish_data'' = None \<Longrightarrow>
     VersionPlugin_register_and_upload h settings i path_to_movie publish_name s =
       (Inl (KeyError ''sg_publish_data''),
        s\<lparr>the_item := (the_item s)\<lparr>properties :=
              AList.update ''publish_type'' (PStr ''Rendered Image'')
                (AList.update ''path'' path_to_movie (properties (the_item s)))\<rparr>,
          trace := trace s @ [LogInfo ''Creating Version...'']\<rparr>)"
  by (simp add: VersionPlugin_register_and_upload_def bnd_VersionPlugin_get_version_entity
      dict_getitem_def update_conv' raise_def)

text \<open>
  The part of \<^verbatim>\<open>publish\<close> after the name and version are known, from any state
  whose item has no \<^verbatim>\<open>sg_publish_data\<close>: whichever way it ends, no registration
  event is added.
\<close>

lemma publish_tail_no_registration:
  assumes missing: "map_of (properties (the_item s1)) ''sg_publish_data'' = None"
  shows "filter is_registration (trace (snd (
     bnd (lift (dict_getitem props ''publish_template'')) (\<lambda>template.
     bnd (lift (as_template_fields h ctx template)) (\<lambda>flds.
     bnd (method_apply_fields h template (g flds)) (\<lambda>path_to_movie.
     bnd (call (ExportAsMediaDirect path_to_movie preset 2)
            (exportAsMediaDirect h path_to_movie preset 2)) (\<lambda>_.
     if path_to_movie = PNone then
       bnd (emit (LogError ''No render path found'' PNone)) (\<lambda>_. ret PNone)
     else
       bnd (lift (get_file_path_components h path_to_movie)) (\<lambda>path_components.
       bnd (lift (py_getitem path_components ''filename'')) (\<lambda>publish_name.
       VersionPlugin_register_and_upload h settings i path_to_movie publish_name)))))) s1)))
     = filter is_registration (trace s1)"
proof (cases "dict_getitem props ''publish_template''")
  case (Inl e)
  then show ?thesis by (simp add: raise_def)
next
  case tpl: (Inr template)
  show ?thesis
  proof (cases "as_template_fields h ctx template")
    case (Inl e)
    with tpl show ?thesis by (simp add: raise_def)
  next
    case flds: (Inr flds)
    show ?thesis
    proof (cases "\<exists>t. template = PTemplate t")
      case False
      with tpl flds show ?thesis
        by (cases template) (simp_all add: raise_def)
    next
      case True
      then obtain t where t: "template = PTemplate t" by blast
      show ?thesis
      proof (cases "apply_fields h t (g flds)")
        case (Inl e)
        with tpl flds t show ?thesis by (simp add: raise_def)
      next
        case path: (Inr p)
        show ?thesis
        proof (cases "exportAsMediaDirect h p preset 2")
          case (Inl e)
          with tpl flds t path show ?thesis by (simp add: raise_def)
        next
          case exp: (Inr u)
          show ?thesis
          proof (cases "p = PNone")
            case True
            with tpl flds t path exp show ?thesis by (simp add: ret_def)
          next
            case notnone: False
            show ?thesis
            proof (cases "get_file_path_components h p")
              case (Inl e)
              with tpl flds t path exp notnone show ?thesis by (simp add: raise_def)
            next
              case pc: (Inr pc)
              show ?thesis
              proof (cases "py_getitem pc ''filename''")
                case (Inl e)
                with tpl flds t path exp notnone pc show ?thesis by (simp add: raise_def)
              next
                case (Inr pn)
                with tpl flds t path exp notnone pc missing show ?thesis
                  by (simp add: VersionPlugin_register_and_upload_missing_key)
              qed
            qed
          qed
        qed
      qed
    qed
  qed
qed

lemma VersionPlugin_publish_no_registration:
  assumes missing: "map_of (properties (the_item s)) ''sg_publish_data'' = None"
  shows "filter is_registration (trace (snd (VersionPlugin_publish h settings s))) =
           filter is_registration (trace s)"
proof (cases "settings ''Publish Template''")
  case None
  then show ?thesis
    by (simp add: VersionPlugin_publish_def bnd_setting_value)
next
  case (Some v)
  show ?thesis
  proof (cases "get_template_by_name h v")
    case (Inl e)
    with Some show ?thesis
      by (simp add: VersionPlugin_publish_def bnd_setting_value raise_def)
  next
    case (Inr pt)
    with Some missing show ?thesis
      by (simp add: VersionPlugin_publish_def bnd_setting_value bnd_VersionPlugin_name_version
          publish_tail_no_registration update_conv')
  qed
qed

text \<open>
  C9, as amended. The movie hook assigns into
  \<^verbatim>\<open>item.properties["sg_publish_data"]\<close> before it delegates to the superclass.
  So for every item whose properties have no \<^verbatim>\<open>sg_publish_data\<close> on entry,
  \<^verbatim>\<open>publish\<close> registers no publish, creates no Version and uploads nothing,
  whatever the host and the settings; and when the run gets as far as that assignment
  (the setting is present, the template is found, the name has a version, the rendered
  path is not \<^verbatim>\<open>None\<close> and the host calls before it return), it fails there with
  the \<^verbatim>\<open>KeyError\<close> of \<^verbatim>\<open>sg_publish_data\<close>.
\<close>

theorem VersionPlugin_publish_without_sg_publish_data:
  assumes "map_of (properties (the_item s)) ''sg_publish_data'' = None"
  shows "filter is_registration (trace (snd (VersionPlugin_publish h settings s))) =
           filter is_registration (trace s) \<and>
     (settings ''Publish Template'' = Some v \<and>
      get_template_by_name h v = Inr pt \<and>
      findall_v_digits (name (the_item s)) \<noteq> [] \<and>
      map_of (if truthy pt then AList.update ''publish_template'' pt (properties (the_item s))
              else properties (the_item s)) ''publish_template'' = Some (PTemplate t) \<and>
      as_template_fields h (item_context (the_item s)) (PTemplate t) = Inr flds \<and>
      apply_fields h t
        (AList.update ''version''
           (PInt (digits_value (tl (last (findall_v_digits (name (the_item s)))))))
           (AList.update ''name''
              (PStr (takeWhile (\<lambda>c. c \<noteq> CHR ''.'') (name (the_item s)))) flds)) = Inr p \<and>
      p \<noteq> PNone \<and>
      exportAsMediaDirect h p preset 2 = Inr () \<and>
      get_file_path_components h p = Inr pc \<and>
      py_getitem pc ''filename'' = Inr pn \<longrightarrow>
      fst (VersionPlugin_publish h settings s) = Inl (KeyError ''sg_publish_data''))"
proof -
  have "fst (VersionPlugin_publish h settings s) = Inl (KeyError ''sg_publish_data'')"
    if "settings ''Publish Template'' = Some v"
      and "get_template_by_name h v = Inr pt"
      and "findall_v_digits (name (the_item s)) \<noteq> []"
      and "map_of (if truthy pt then AList.update ''publish_template'' pt (properties (the_item s))
              else properties (the_item s)) ''publish_template'' = Some (PTemplate t)"
      and "as_template_fields h (item_context (the_item s)) (PTemplate t) = Inr flds"
      and "apply_fields h t
        (AList.update ''version''
           (PInt (digits_value (tl (last (findall_v_digits (name (the_item s)))))))
           (AList.update ''name''
              (PStr (takeWhile (\<lambda>c. c \<noteq> CHR ''.'') (name (the_item s)))) flds)) = Inr p"
      and "p \<noteq> PNone"
      and "exportAsMediaDirect h p preset 2 = Inr ()"
      and "get_file_path_components h p = Inr pc"
      and "py_getitem pc ''filename'' = Inr pn"
    using that assms
    by (cases "truthy pt")
      (simp_all add: VersionPlugin_publish_def bnd_setting_value bnd_VersionPlugin_name_version
        dict_getitem_def update_conv' VersionPlugin_register_and_upload_missing_key)
  with VersionPlugin_publish_no_registration [OF assms, of h settings] show ?thesis
    by blast
qed

theorem VersionPlugin_publish_without_sg_publish_data_witness:
  "map_of (properties (the_item (example_state\<lparr>the_item := example_item\<lparr>properties := []\<rparr>\<rparr>)))
      ''sg_publish_data'' = None \<and>
   fst (VersionPlugin_publish example_host example_settings
          (example_state\<lparr>the_item := example_item\<lparr>properties := []\<rparr>\<rparr>)) =
     Inl (KeyError ''sg_publish_data'') \<and>
   filter is_registration (trace (snd (VersionPlugin_publish example_host example_settings
          (example_state\<lparr>the_item := example_item\<lparr>properties := []\<rparr>\<rparr>)))) = []"
  using VersionPlugin_publish_without_sg_publish_data
    [of "example_state\<lparr>the_item := example_item\<lparr>properties := []\<rparr>\<rparr>"
        example_host example_settings "PStr ''premiere_publish''" "PTemplate ''premiere_publish''"
        "''premiere_publish''" "[(''Shot'', PStr ''shot010'')]" "PStr ''/publish/shot010_v003.mov''"
        "PDict [(''filename'', PStr ''shot010_v003.mov'')]" "PStr ''shot010_v003.mov''"]
  by (simp add: example_defs dict_getitem_def is_digit_def)

text \<open>
  C9 as stated fails: an item without \<^verbatim>\<open>sg_publish_data\<close> need not end in a
  key-lookup error. When the template renders \<^verbatim>\<open>None\<close> the call returns normally,
  and a name without a version raises \<^verbatim>\<open>IndexError\<close> earlier.
\<close>

theorem VersionPlugin_publish_without_sg_publish_data_counterexample:
  "map_of (properties (the_item (example_state\<lparr>the_item := example_item\<lparr>properties := []\<rparr>\<rparr>)))
      ''sg_publish_data'' = None \<and>
   fst (VersionPlugin_publish (example_host\<lparr>apply_fields := (\<lambda>t flds. Inr PNone)\<rparr>)
          example_settings (example_state\<lparr>the_item := example_item\<lparr>properties := []\<rparr>\<rparr>)) =
     Inr PNone \<and>
   map_of (properties (the_item (example_state\<lparr>the_item :=
      example_item\<lparr>name := ''shot010.prproj'', properties := []\<rparr>\<rparr>))) ''sg_publish_data'' = None \<and>
   fst (VersionPlugin_publish example_host example_settings
          (example_state\<lparr>the_item :=
             example_item\<lparr>name := ''shot010.prproj'', properties := []\<rparr>\<rparr>)) = Inl IndexError"
  by (simp add: example_defs VersionPlugin_publish_def bnd_setting_value
      bnd_VersionPlugin_name_version dict_getitem_def is_digit_def ret_def)

section \<open>Creating the Version and uploading the movie\<close>

lemma VersionPlugin_get_version_entity_properties:
  "VersionPlugin_get_version_entity (i\<lparr>properties := ps\<rparr>) = VersionPlugin_get_version_entity i"
  by (simp add: VersionPlugin_get_version_entity_def)

text \<open>
  C6, as amended. Lines 296 to 352 of the movie hook's \<^verbatim>\<open>publish\<close>, from a state
  whose item has a dictionary under \<^verbatim>\<open>sg_publish_data\<close>. Once the superclass
  registration has succeeded, the payload holds project, code, description, entity, task,
  movie path and the list of published files; it is sent to the \<^verbatim>\<open>create\<close> call for
  a \<^verbatim>\<open>Version\<close>; the returned record is stored under \<^verbatim>\<open>sg_version_data\<close>;
  the movie is then uploaded to the field \<^verbatim>\<open>sg_uploaded_movie\<close> of the record with
  the returned id; and the upload path is stored last, only when the upload has returned.
  When the upload raises, the item already carries the version data.
\<close>

theorem VersionPlugin_register_and_upload_order:
  assumes "VersionPlugin_get_version_entity (the_item s) = ret version_entity"
    and "map_of (properties (the_item s)) ''sg_publish_data'' = Some (PDict spd)"
    and "staged_item = (the_item s)\<lparr>properties :=
             AList.update ''sg_publish_data''
               (PDict (AList.update ''upstream_published_files'' version_entity spd))
               (AList.update ''publish_type'' (PStr ''Rendered Image'')
                  (AList.update ''path'' (PStr p) (properties (the_item s))))\<rparr>"
    and "super_publish h settings staged_item = (Inr (), registered_item)"
    and "py_extend
           (if truthy (dict_get (properties registered_item) ''sg_publish_data'' PNone)
            then [dict_get (properties registered_item) ''sg_publish_data'' PNone] else [])
           (dict_get (properties registered_item) ''published_renderings'' (PList [])) = Inr published_files"
    and "version_data =
           [(''project'', project (item_context (the_item s))),
            (''code'', publish_name),
            (''description'', description (the_item s)),
            (''entity'', version_entity),
            (''sg_task'', task (item_context (the_item s))),
            (''sg_path_to_movie'', PStr p),
            (''published_files'', PList published_files)]"
    and "sg_create h ''Version'' version_data = Inr version"
    and "py_getitem version ''id'' = Inr version_id"
    and "events =
           [LogInfo ''Creating Version...'',
            SuperPublish,
            LogDebug ''Populated Version data...''
              (PDict [(''action_show_more_info'', PDict
                 [(''label'', PStr ''Version Data''),
                  (''tooltip'', PStr ''Show the complete Version data dictionary''),
                  (''text'', PDict version_data)])]),
            LogInfo ''Creating version for review...'',
            SgCreate ''Version'' version_data,
            LogInfo ''Uploading content...'',
            SgUpload ''Version'' version_id (PStr p) ''sg_uploaded_movie'']"
  shows "VersionPlugin_register_and_upload h settings (the_item s) (PStr p) publish_name s =
     (case sg_upload h ''Version'' version_id (PStr p) ''sg_uploaded_movie'' of
        Inl e \<Rightarrow>
          (Inl e,
           \<lparr>the_item = registered_item\<lparr>properties :=
                AList.update ''sg_version_data'' version (properties registered_item)\<rparr>,
            trace = trace s @ events\<rparr>)
      | Inr u \<Rightarrow>
          (Inr PNone,
           \<lparr>the_item = registered_item\<lparr>properties :=
                AList.update ''upload_path'' (PStr p)
                  (AList.update ''sg_version_data'' version (properties registered_item))\<rparr>,
            trace = trace s @ events @ [LogInfo ''Upload complete!'']\<rparr>))"
proof (cases "sg_upload h ''Version'' version_id (PStr p) ''sg_uploaded_movie''")
  case (Inl e)
  with assms show ?thesis
    by (cases "truthy (dict_get (properties registered_item) ''sg_publish_data'' PNone)")
      (simp_all add: VersionPlugin_register_and_upload_def
        VersionPlugin_get_version_entity_properties
        dict_getitem_def update_conv' bnd_call_super raise_def)
next
  case (Inr u)
  with assms show ?thesis
    by (cases "truthy (dict_get (properties registered_item) ''sg_publish_data'' PNone)")
      (simp_all add: VersionPlugin_register_and_upload_def
        VersionPlugin_get_version_entity_properties
        dict_getitem_def update_conv' bnd_call_super ret_def)
qed

theorem VersionPlugin_register_and_upload_order_witness:
  "VersionPlugin_get_version_entity (the_item example_state) =
     ret (PDict [(''type'', PStr ''Shot''), (''id'', PInt 1200)]) \<and>
   map_of (properties (the_item example_state)) ''sg_publish_data'' = Some (PDict []) \<and>
   fst (VersionPlugin_register_and_upload example_host example_settings (the_item example_state)
          (PStr ''/publish/shot010_v003.mov'') (PStr ''shot010_v003.mov'') example_state) =
     Inr PNone \<and>
   filter is_registration
     (trace (snd (VersionPlugin_register_and_upload example_host example_settings
        (the_item example_state) (PStr ''/publish/shot010_v003.mov'') (PStr ''shot010_v003.mov'')
        example_state))) =
     [SuperPublish,
      SgCreate ''Version''
        [(''project'', PDict [(''type'', PStr ''Project''), (''id'', PInt 70)]),
         (''code'', PStr ''shot010_v003.mov''),
         (''description'', PStr ''first cut''),
         (''entity'', PDict [(''type'', PStr ''Shot''), (''id'', PInt 1200)]),
         (''sg_task'', PNone),
         (''sg_path_to_movie'', PStr ''/publish/shot010_v003.mov''),
         (''published_files'', PList [PDict [(''upstream_published_files'',
             PDict [(''type'', PStr ''Shot''), (''id'', PInt 1200)])]])],
      SgUpload ''Version'' (PInt 42) (PStr ''/publish/shot010_v003.mov'') ''sg_uploaded_movie''] \<and>
   map_of (properties (the_item (snd (VersionPlugin_register_and_upload example_host
        example_settings (the_item example_state) (PStr ''/publish/shot010_v003.mov'')
        (PStr ''shot010_v003.mov'') example_state)))) ''sg_version_data'' =
     Some (PDict [(''type'', PStr ''Version''), (''id'', PInt 42)]) \<and>
   map_of (properties (the_item (snd (VersionPlugin_register_and_upload example_host
        example_settings (the_item example_state) (PStr ''/publish/shot010_v003.mov'')
        (PStr ''shot010_v003.mov'') example_state)))) ''upload_path'' =
     Some (PStr ''/publish/shot010_v003.mov'')"
  using VersionPlugin_register_and_upload_order
    [where s = example_state and h = example_host and settings = example_settings
       and version_entity = "PDict [(''type'', PStr ''Shot''), (''id'', PInt 1200)]"
       and spd = "[]" and p = "''/publish/shot010_v003.mov''"
       and publish_name = "PStr ''shot010_v003.mov''"
       and registered_item = "example_item\<lparr>properties :=
          [(''sg_publish_data'', PDict [(''upstream_published_files'',
               PDict [(''type'', PStr ''Shot''), (''id'', PInt 1200)])]),
           (''path'', PStr ''/publish/shot010_v003.mov''),
           (''publish_type'', PStr ''Rendered Image'')]\<rparr>"
       and published_files = "[PDict [(''upstream_published_files'',
               PDict [(''type'', PStr ''Shot''), (''id'', PInt 1200)])]]"
       and version = "PDict [(''type'', PStr ''Version''), (''id'', PInt 42)]"
       and version_id = "PInt 42",
     OF _ _ refl _ _ refl _ _ refl]
  by (simp add: example_defs VersionPlugin_get_version_entity_def dict_get_def dict_getitem_def)

text \<open>
  C6 as stated puts the storing of the version data after the upload. With a tracking
  database whose upload fails, \<^verbatim>\<open>publish\<close> ends in that failure, the upload being
  the last call made, and the item nevertheless holds \<^verbatim>\<open>sg_version_data\<close> (and no
  \<^verbatim>\<open>upload_path\<close>): the version data were stored before the upload.
\<close>

theorem VersionPlugin_publish_stores_version_before_upload_counterexample:
  "fst (VersionPlugin_publish
          (example_host\<lparr>sg_upload := (\<lambda>t i p f. Inl (HostError ''upload failed''))\<rparr>)
          example_settings example_state) = Inl (HostError ''upload failed'') \<and>
   last (trace (snd (VersionPlugin_publish
          (example_host\<lparr>sg_upload := (\<lambda>t i p f. Inl (HostError ''upload failed''))\<rparr>)
          example_settings example_state))) =
     SgUpload ''Version'' (PInt 42) (PStr ''/publish/shot010_v003.mov'') ''sg_uploaded_movie'' \<and>
   map_of (properties (the_item (snd (VersionPlugin_publish
          (example_host\<lparr>sg_upload := (\<lambda>t i p f. Inl (HostError ''upload failed''))\<rparr>)
          example_settings example_state)))) ''sg_version_data'' =
     Some (PDict [(''type'', PStr ''Version''), (''id'', PInt 42)]) \<and>
   map_of (properties (the_item (snd (VersionPlugin_publish
          (example_host\<lparr>sg_upload := (\<lambda>t i p f. Inl (HostError ''upload failed''))\<rparr>)
          example_settings example_state)))) ''upload_path'' = None"
  by (simp add: example_defs VersionPlugin_publish_def VersionPlugin_register_and_upload_def
      bnd_setting_value bnd_VersionPlugin_name_version bnd_VersionPlugin_get_version_entity
      bnd_call_super dict_getitem_def dict_get_def is_digit_def raise_def)

end
